theory Spec2Isabelle
  imports Complex_Main "HOL-Library.Word" "HOL-Library.AList"
begin

section \<open>The scripting runtime's values\<close>

text \<open>
  \<^verbatim>\<open>MmkvHostObject.cpp\<close> binds a key-value storage engine to a JavaScript runtime
  through the host-object protocol of JSI. The values that cross this boundary are
  \<^verbatim>\<open>jsi::Value\<close>s: one constructor per kind of \<^verbatim>\<open>jsi::Value\<close>, and for objects the
  kinds the binding tells apart or builds (ArrayBuffer, Array, host function) next to
  every other object.

  A JavaScript number is a double. The binding never computes with one: it passes it to
  the engine and back, and builds one from a C++ \<^verbatim>\<open>int\<close> (exactly representable). It is
  modelled as a \<open>real\<close>. A string is its UTF-8 bytes, so \<^verbatim>\<open>asString(runtime).utf8(runtime)\<close>
  is the identity on the payload.

  Each lambda handed to \<^verbatim>\<open>jsi::Function::createFromHostFunction\<close> is named by a tag of
  type \<open>hostfn\<close>; \<open>call\<close> below runs the lambda of a tag.
\<close>

datatype hostfn =
    Fn_set | Fn_getBoolean | Fn_getNumber | Fn_getString | Fn_getBuffer | Fn_contains
  | Fn_delete | Fn_getAllKeys | Fn_clearAll | Fn_recrypt | Fn_trim

datatype jsvalue =
    JSUndefined
  | JSNull
  | JSBool bool
  | JSNumber real
  | JSSymbol
  | JSBigInt
  | JSString string
  | JSObject jsobject
and jsobject =
    ArrayBuffer "8 word list"
  | JSArray "jsvalue list"
  | HostFunction string nat hostfn
  | PlainObject

text \<open>A script-level exception: \<^verbatim>\<open>jsi::JSError\<close> with its message, and the runtime's own
  error when a script calls a value that is not a function.\<close>

datatype jserror = JSError string | NotCallable

fun isUndefined :: "jsvalue \<Rightarrow> bool" where
  "isUndefined JSUndefined = True"
| "isUndefined _ = False"

fun isBool :: "jsvalue \<Rightarrow> bool" where
  "isBool (JSBool _) = True"
| "isBool _ = False"

fun isNumber :: "jsvalue \<Rightarrow> bool" where
  "isNumber (JSNumber _) = True"
| "isNumber _ = False"

fun isString :: "jsvalue \<Rightarrow> bool" where
  "isString (JSString _) = True"
| "isString _ = False"

fun isObject :: "jsvalue \<Rightarrow> bool" where
  "isObject (JSObject _) = True"
| "isObject _ = False"

fun isArrayBuffer :: "jsobject \<Rightarrow> bool" where
  "isArrayBuffer (ArrayBuffer _) = True"
| "isArrayBuffer _ = False"

text \<open>The getters of \<^verbatim>\<open>jsi::Value\<close>. Each is called by the source only behind the
  matching test; elsewhere JSI asserts or throws, and the model gives the type's
  default.\<close>

fun getBool :: "jsvalue \<Rightarrow> bool" where
  "getBool (JSBool b) = b"
| "getBool _ = False"

fun getNumber :: "jsvalue \<Rightarrow> real" where
  "getNumber (JSNumber d) = d"
| "getNumber _ = 0"

fun utf8 :: "jsvalue \<Rightarrow> string" where
  "utf8 (JSString s) = s"
| "utf8 _ = []"

fun asObject :: "jsvalue \<Rightarrow> jsobject" where
  "asObject (JSObject ob) = ob"
| "asObject _ = PlainObject"

fun arrayBuffer_data :: "jsobject \<Rightarrow> 8 word list" where
  "arrayBuffer_data (ArrayBuffer bs) = bs"
| "arrayBuffer_data _ = []"

text \<open>\<^verbatim>\<open>std::to_string\<close> on a \<^verbatim>\<open>size_t\<close>: the decimal digits.\<close>

definition digit_char :: "nat \<Rightarrow> char" where
  "digit_char d = ''0123456789'' ! d"

function to_string :: "nat \<Rightarrow> string" where
  "to_string n = (if n < 10 then [digit_char n] else to_string (n div 10) @ [digit_char (n mod 10)])"
  by pat_completeness auto
termination
  by (relation "measure id") auto

section \<open>The storage engine\<close>

text \<open>
  The engine (class \<^verbatim>\<open>MMKV\<close>, header \<^verbatim>\<open>MMKV.h\<close>) is not among the sources. The binding
  consumes it through a fixed list of operations, and the specification says of them
  only that each does what its name says and that a value written with \<^verbatim>\<open>set\<close> is
  retrievable with the getter of its type. The engine is modelled accordingly as a
  typed key-value store: an association list from keys to the values written, the
  encryption key in force, and the size the engine reports for its file.
\<close>

datatype mmkv_value = VBool bool | VDouble real | VString string | VBytes "8 word list"

record mmkv =
  m_dic :: "(string \<times> mmkv_value) list"
  m_cryptKey :: string
  m_actualSize :: "64 word"

text \<open>Modelled from the spec: \<^verbatim>\<open>MMKV::set\<close> (its four overloads for bool, double,
  string and buffer, told apart by the constructor of the value) is missing from the
  sources; it stores the value under the key, replacing what the key held.\<close>

definition MMKV_set :: "mmkv_value \<Rightarrow> string \<Rightarrow> mmkv \<Rightarrow> mmkv" where
  "MMKV_set v key m = m\<lparr>m_dic := AList.update key v (m_dic m)\<rparr>"

text \<open>Modelled from the spec: \<^verbatim>\<open>MMKV::getBool(key, defaultValue, &hasValue)\<close> is missing
  from the sources; it gives the boolean stored under the key and whether there is one
  (the pair is the returned value and \<^verbatim>\<open>hasValue\<close>). What it reports for a key holding a
  value of another type is not said by the spec; the model reports no value.\<close>

definition MMKV_getBool :: "string \<Rightarrow> bool \<Rightarrow> mmkv \<Rightarrow> bool \<times> bool" where
  "MMKV_getBool key defaultValue m =
     (case map_of (m_dic m) key of Some (VBool b) \<Rightarrow> (b, True) | _ \<Rightarrow> (defaultValue, False))"

text \<open>Modelled from the spec: \<^verbatim>\<open>MMKV::getDouble(key, defaultValue, &hasValue)\<close> is
  missing from the sources; as \<open>MMKV_getBool\<close>, for numbers.\<close>

definition MMKV_getDouble :: "string \<Rightarrow> real \<Rightarrow> mmkv \<Rightarrow> real \<times> bool" where
  "MMKV_getDouble key defaultValue m =
     (case map_of (m_dic m) key of Some (VDouble d) \<Rightarrow> (d, True) | _ \<Rightarrow> (defaultValue, False))"

text \<open>Modelled from the spec: \<^verbatim>\<open>MMKV::getString(key, result)\<close> is missing from the
  sources; it returns whether the key holds a string and writes it to \<^verbatim>\<open>result\<close> (the
  pair is the returned flag and \<^verbatim>\<open>result\<close>, which is left as passed when the flag is
  false).\<close>

definition MMKV_getString :: "string \<Rightarrow> string \<Rightarrow> mmkv \<Rightarrow> bool \<times> string" where
  "MMKV_getString key result m =
     (case map_of (m_dic m) key of Some (VString s) \<Rightarrow> (True, s) | _ \<Rightarrow> (False, result))"

text \<open>Modelled from the spec: \<^verbatim>\<open>MMKV::getBytes(key, result)\<close> is missing from the
  sources; as \<open>MMKV_getString\<close>, for buffers.\<close>

definition MMKV_getBytes :: "string \<Rightarrow> 8 word list \<Rightarrow> mmkv \<Rightarrow> bool \<times> 8 word list" where
  "MMKV_getBytes key result m =
     (case map_of (m_dic m) key of Some (VBytes bs) \<Rightarrow> (True, bs) | _ \<Rightarrow> (False, result))"

text \<open>Modelled from the spec: \<^verbatim>\<open>MMKV::containsKey\<close> is missing from the sources; it
  tells whether the key holds a value.\<close>

definition MMKV_containsKey :: "string \<Rightarrow> mmkv \<Rightarrow> bool" where
  "MMKV_containsKey key m = (map_of (m_dic m) key \<noteq> None)"

text \<open>Modelled from the spec: \<^verbatim>\<open>MMKV::removeValueForKey\<close> is missing from the sources;
  it removes the key and its value.\<close>

definition MMKV_removeValueForKey :: "string \<Rightarrow> mmkv \<Rightarrow> mmkv" where
  "MMKV_removeValueForKey key m = m\<lparr>m_dic := AList.delete key (m_dic m)\<rparr>"

text \<open>Modelled from the spec: \<^verbatim>\<open>MMKV::allKeys\<close> is missing from the sources; it lists
  the keys that hold a value.\<close>

definition MMKV_allKeys :: "mmkv \<Rightarrow> string list" where
  "MMKV_allKeys m = map fst (m_dic m)"

text \<open>Modelled from the spec: \<^verbatim>\<open>MMKV::clearAll\<close> is missing from the sources; it
  removes every key.\<close>

definition MMKV_clearAll :: "mmkv \<Rightarrow> mmkv" where
  "MMKV_clearAll m = m\<lparr>m_dic := []\<rparr>"

text \<open>Modelled from the spec: \<^verbatim>\<open>MMKV::reKey\<close> is missing from the sources; it changes
  the encryption key (the empty string: no encryption) and keeps the stored values.\<close>

definition MMKV_reKey :: "string \<Rightarrow> mmkv \<Rightarrow> mmkv" where
  "MMKV_reKey cryptKey m = m\<lparr>m_cryptKey := cryptKey\<rparr>"

text \<open>Modelled from the spec: \<^verbatim>\<open>MMKV::clearMemoryCache\<close> is missing from the sources; it
  drops the engine's in-memory cache. The cache is not part of the modelled state, and
  the stored values are kept.\<close>

definition MMKV_clearMemoryCache :: "mmkv \<Rightarrow> mmkv" where
  "MMKV_clearMemoryCache m = m"

text \<open>Modelled from the spec: \<^verbatim>\<open>MMKV::trim\<close> is missing from the sources; it compacts
  the engine's file and keeps the stored values. How the reported size changes is not
  said by the spec and is left out.\<close>

definition MMKV_trim :: "mmkv \<Rightarrow> mmkv" where
  "MMKV_trim m = m"

text \<open>Modelled from the spec: \<^verbatim>\<open>MMKV::actualSize\<close> is missing from the sources; it
  reports the size of the engine's file, a \<^verbatim>\<open>size_t\<close> (64 bits on the platforms the
  binding is built for).\<close>

definition MMKV_actualSize :: "mmkv \<Rightarrow> 64 word" where
  "MMKV_actualSize m = m_actualSize m"

section \<open>The host object\<close>

text \<open>
  The host object holds the pointer \<^verbatim>\<open>instance\<close> to its engine. Its state in the model is
  the engine's state (\<open>inst\<close>) and the list of the engine operations the binding has
  called on it, in order (\<open>calls\<close>): what a property "forwards to" is read from this
  list.
\<close>

datatype engine_call =
    Call_set mmkv_value string
  | Call_getBool string
  | Call_getDouble string
  | Call_getString string
  | Call_getBytes string
  | Call_containsKey string
  | Call_removeValueForKey string
  | Call_allKeys
  | Call_clearAll
  | Call_reKey string
  | Call_clearMemoryCache
  | Call_trim
  | Call_actualSize

record host =
  inst :: mmkv
  calls :: "engine_call list"

fun engine_effect :: "engine_call \<Rightarrow> mmkv \<Rightarrow> mmkv" where
  "engine_effect (Call_set v key) m = MMKV_set v key m"
| "engine_effect (Call_removeValueForKey key) m = MMKV_removeValueForKey key m"
| "engine_effect Call_clearAll m = MMKV_clearAll m"
| "engine_effect (Call_reKey cryptKey) m = MMKV_reKey cryptKey m"
| "engine_effect Call_clearMemoryCache m = MMKV_clearMemoryCache m"
| "engine_effect Call_trim m = MMKV_trim m"
| "engine_effect _ m = m"

text \<open>\<^verbatim>\<open>instance->op(...)\<close>: the operation acts on the engine and is recorded.\<close>

definition call_engine :: "engine_call \<Rightarrow> host \<Rightarrow> host" where
  "call_engine c h = h\<lparr>inst := engine_effect c (inst h), calls := calls h @ [c]\<rparr>"

subsection \<open>Construction\<close>

datatype MmkvCxxMode = SINGLE_PROCESS | MULTI_PROCESS | OTHER_MODE int

datatype MMKVMode = MMKV_SINGLE_PROCESS | MMKV_MULTI_PROCESS

record MMKVConfig =
  config_id :: string
  config_path :: "string option"
  config_encryptionKey :: "string option"
  config_mode :: "MmkvCxxMode option"

datatype cpp_exception = Runtime_error string

text \<open>\<^verbatim>\<open>MmkvHostObject::getMMKVMode\<close>. \<open>OTHER_MODE\<close> stands for a value of the enum class
  that is none of its enumerators (the \<^verbatim>\<open>default:\<close> branch).\<close>

definition getMMKVMode :: "MMKVConfig \<Rightarrow> cpp_exception + MMKVMode" where
  "getMMKVMode config =
     (case config_mode config of
        None \<Rightarrow> Inr MMKV_SINGLE_PROCESS
      | Some SINGLE_PROCESS \<Rightarrow> Inr MMKV_SINGLE_PROCESS
      | Some MULTI_PROCESS \<Rightarrow> Inr MMKV_MULTI_PROCESS
      | Some (OTHER_MODE _) \<Rightarrow> Inl (Runtime_error ''Invalid MMKV Mode value!''))"

text \<open>The locals \<^verbatim>\<open>path\<close>, \<^verbatim>\<open>encryptionKey\<close>, \<^verbatim>\<open>pathPtr\<close> and \<^verbatim>\<open>encryptionKeyPtr\<close> of the
  constructor (a null pointer is \<open>None\<close>).\<close>

definition path_of :: "MMKVConfig \<Rightarrow> string" where
  "path_of config = (case config_path config of Some p \<Rightarrow> p | None \<Rightarrow> [])"

definition encryptionKey_of :: "MMKVConfig \<Rightarrow> string" where
  "encryptionKey_of config = (case config_encryptionKey config of Some k \<Rightarrow> k | None \<Rightarrow> [])"

definition pathPtr :: "MMKVConfig \<Rightarrow> string option" where
  "pathPtr config = (if length (path_of config) > 0 then Some (path_of config) else None)"

definition encryptionKeyPtr :: "MMKVConfig \<Rightarrow> string option" where
  "encryptionKeyPtr config =
     (if length (encryptionKey_of config) > 0 then Some (encryptionKey_of config) else None)"

text \<open>
  The constructor. The engine's factory \<^verbatim>\<open>MMKV::mmkvWithID\<close> is external and is a
  parameter: it gives the engine instance, or \<open>None\<close> for the null pointer. (Off Apple
  platforms the source passes it the constant \<^verbatim>\<open>DEFAULT_MMAP_SIZE\<close> as well.) The call to
  \<^verbatim>\<open>Logger::log\<close> touches neither the engine nor the result and is left out. A thrown
  \<^verbatim>\<open>std::runtime_error\<close> is \<open>Inl\<close>.
\<close>

definition MmkvHostObject ::
  "(string \<Rightarrow> MMKVMode \<Rightarrow> string option \<Rightarrow> string option \<Rightarrow> mmkv option)
     \<Rightarrow> MMKVConfig \<Rightarrow> cpp_exception + host" where
  "MmkvHostObject mmkvWithID config =
     (case getMMKVMode config of
        Inl e \<Rightarrow> Inl e
      | Inr mode \<Rightarrow>
          (case mmkvWithID (config_id config) mode (encryptionKeyPtr config) (pathPtr config) of
             None \<Rightarrow>
               if config_id config = [] then
                 Inl (Runtime_error ''Failed to create MMKV instance! `id` cannot be empty!'')
               else if length (encryptionKey_of config) > 16 then
                 Inl (Runtime_error
                   ''Failed to create MMKV instance! `encryptionKey` cannot be longer than 16 bytes!'')
               else Inl (Runtime_error ''Failed to create MMKV instance!'')
           | Some m \<Rightarrow> Inr \<lparr>inst = m, calls = []\<rparr>))"

subsection \<open>The property names\<close>

definition getPropertyNames :: "string list" where
  "getPropertyNames =
     [''set'', ''getBoolean'', ''getBuffer'', ''getString'', ''getNumber'', ''contains'',
      ''delete'', ''getAllKeys'', ''deleteAll'', ''recrypt'', ''trim'', ''size'']"

subsection \<open>The host functions\<close>

text \<open>
  Each lambda of \<^verbatim>\<open>MmkvHostObject::get\<close> takes the arguments of the call (\<^verbatim>\<open>count\<close> is
  their number) and the host object, and gives the returned value or the thrown
  \<^verbatim>\<open>jsi::JSError\<close> (\<open>Inl\<close>), and the host object afterwards. \<open>\<or>\<close> is read left to right
  as \<^verbatim>\<open>||\<close> is: \<open>arguments ! 0\<close> is looked at only when the count is right.
\<close>

type_synonym host_result = "(jserror + jsvalue) \<times> host"

definition host_set :: "jsvalue list \<Rightarrow> host \<Rightarrow> host_result" where
  "host_set arguments h =
     (if length arguments \<noteq> 2 \<or> \<not> isString (arguments ! 0) then
        (Inl (JSError ''MMKV::set: First argument ('key') has to be of type string!''), h)
      else
        let keyName = utf8 (arguments ! 0) in
        if isBool (arguments ! 1) then
          (Inr JSUndefined, call_engine (Call_set (VBool (getBool (arguments ! 1))) keyName) h)
        else if isNumber (arguments ! 1) then
          (Inr JSUndefined, call_engine (Call_set (VDouble (getNumber (arguments ! 1))) keyName) h)
        else if isString (arguments ! 1) then
          (let stringValue = utf8 (arguments ! 1)
           in (Inr JSUndefined, call_engine (Call_set (VString stringValue) keyName) h))
        else if isObject (arguments ! 1) then
          (let object = asObject (arguments ! 1) in
           if isArrayBuffer object then
             (Inr JSUndefined,
              call_engine (Call_set (VBytes (arrayBuffer_data object)) keyName) h)
           else
             (Inl (JSError
                ''MMKV::set: 'value' argument is an object, but not of type ArrayBuffer!''), h))
        else
          (Inl (JSError
             ''MMKV::set: 'value' argument is not of type bool, number, string or buffer!''), h))"

definition host_getBoolean :: "jsvalue list \<Rightarrow> host \<Rightarrow> host_result" where
  "host_getBoolean arguments h =
     (if length arguments \<noteq> 1 \<or> \<not> isString (arguments ! 0) then
        (Inl (JSError ''First argument ('key') has to be of type string!''), h)
      else
        let keyName = utf8 (arguments ! 0);
            (val, hasValue) = MMKV_getBool keyName False (inst h);
            h' = call_engine (Call_getBool keyName) h
        in if \<not> hasValue then (Inr JSUndefined, h') else (Inr (JSBool val), h'))"

definition host_getNumber :: "jsvalue list \<Rightarrow> host \<Rightarrow> host_result" where
  "host_getNumber arguments h =
     (if length arguments \<noteq> 1 \<or> \<not> isString (arguments ! 0) then
        (Inl (JSError ''First argument ('key') has to be of type string!''), h)
      else
        let keyName = utf8 (arguments ! 0);
            (val, hasValue) = MMKV_getDouble keyName 0 (inst h);
            h' = call_engine (Call_getDouble keyName) h
        in if \<not> hasValue then (Inr JSUndefined, h') else (Inr (JSNumber val), h'))"

definition host_getString :: "jsvalue list \<Rightarrow> host \<Rightarrow> host_result" where
  "host_getString arguments h =
     (if length arguments \<noteq> 1 \<or> \<not> isString (arguments ! 0) then
        (Inl (JSError ''First argument ('key') has to be of type string!''), h)
      else
        let keyName = utf8 (arguments ! 0);
            (hasValue, result) = MMKV_getString keyName [] (inst h);
            h' = call_engine (Call_getString keyName) h
        in if \<not> hasValue then (Inr JSUndefined, h') else (Inr (JSString result), h'))"

definition host_getBuffer :: "jsvalue list \<Rightarrow> host \<Rightarrow> host_result" where
  "host_getBuffer arguments h =
     (if length arguments \<noteq> 1 \<or> \<not> isString (arguments ! 0) then
        (Inl (JSError ''First argument ('key') has to be of type string!''), h)
      else
        let keyName = utf8 (arguments ! 0);
            (hasValue, buffer) = MMKV_getBytes keyName [] (inst h);
            h' = call_engine (Call_getBytes keyName) h
        in if \<not> hasValue then (Inr JSUndefined, h')
           else (Inr (JSObject (ArrayBuffer buffer)), h'))"

definition host_contains :: "jsvalue list \<Rightarrow> host \<Rightarrow> host_result" where
  "host_contains arguments h =
     (if length arguments \<noteq> 1 \<or> \<not> isString (arguments ! 0) then
        (Inl (JSError ''First argument ('key') has to be of type string!''), h)
      else
        let keyName = utf8 (arguments ! 0);
            containsKey = MMKV_containsKey keyName (inst h)
        in (Inr (JSBool containsKey), call_engine (Call_containsKey keyName) h))"

definition host_delete :: "jsvalue list \<Rightarrow> host \<Rightarrow> host_result" where
  "host_delete arguments h =
     (if length arguments \<noteq> 1 \<or> \<not> isString (arguments ! 0) then
        (Inl (JSError ''First argument ('key') has to be of type string!''), h)
      else
        let keyName = utf8 (arguments ! 0)
        in (Inr JSUndefined, call_engine (Call_removeValueForKey keyName) h))"

text \<open>The loop of \<^verbatim>\<open>getAllKeys\<close> writes \<^verbatim>\<open>keys[i]\<close> to index \<^verbatim>\<open>i\<close> of a fresh array of
  \<^verbatim>\<open>keys.size()\<close> entries: the array of the keys, each as a string.\<close>

definition host_getAllKeys :: "jsvalue list \<Rightarrow> host \<Rightarrow> host_result" where
  "host_getAllKeys arguments h =
     (let keys = MMKV_allKeys (inst h)
      in (Inr (JSObject (JSArray (map JSString keys))), call_engine Call_allKeys h))"

definition host_clearAll :: "jsvalue list \<Rightarrow> host \<Rightarrow> host_result" where
  "host_clearAll arguments h = (Inr JSUndefined, call_engine Call_clearAll h)"

definition host_recrypt :: "jsvalue list \<Rightarrow> host \<Rightarrow> host_result" where
  "host_recrypt arguments h =
     (if length arguments \<noteq> 1 then
        (Inl (JSError (''Expected 1 argument (encryptionKey), but received ''
                         @ to_string (length arguments) @ ''!'')), h)
      else if isUndefined (arguments ! 0) then
        (Inr JSUndefined, call_engine (Call_reKey []) h)
      else if isString (arguments ! 0) then
        (let encryptionKey = utf8 (arguments ! 0)
         in (Inr JSUndefined, call_engine (Call_reKey encryptionKey) h))
      else
        (Inl (JSError
           ''First argument ('encryptionKey') has to be of type string (or undefined)!''), h))"

definition host_trim :: "jsvalue list \<Rightarrow> host \<Rightarrow> host_result" where
  "host_trim arguments h =
     (Inr JSUndefined, call_engine Call_trim (call_engine Call_clearMemoryCache h))"

fun call :: "hostfn \<Rightarrow> jsvalue list \<Rightarrow> host \<Rightarrow> host_result" where
  "call Fn_set = host_set"
| "call Fn_getBoolean = host_getBoolean"
| "call Fn_getNumber = host_getNumber"
| "call Fn_getString = host_getString"
| "call Fn_getBuffer = host_getBuffer"
| "call Fn_contains = host_contains"
| "call Fn_delete = host_delete"
| "call Fn_getAllKeys = host_getAllKeys"
| "call Fn_clearAll = host_clearAll"
| "call Fn_recrypt = host_recrypt"
| "call Fn_trim = host_trim"

subsection \<open>Property lookup\<close>

text \<open>
  \<^verbatim>\<open>MmkvHostObject::get\<close>: the value of the property \<^verbatim>\<open>propName\<close>. A host function is
  returned with its name, its declared number of parameters and its lambda. The
  property \<^verbatim>\<open>size\<close> is computed on the spot:
  \<^verbatim>\<open>static_cast<int>(size)\<close> keeps the low 32 bits of the \<^verbatim>\<open>size_t\<close> and reads them as
  two's complement, and \<^verbatim>\<open>jsi::Value(int)\<close> is the number of that value.
\<close>

definition get :: "string \<Rightarrow> host \<Rightarrow> jsvalue \<times> host" where
  "get propName h =
     (let funcName = ''MMKV.'' @ propName in
      if propName = ''set'' then (JSObject (HostFunction funcName 2 Fn_set), h)
      else if propName = ''getBoolean'' then (JSObject (HostFunction funcName 1 Fn_getBoolean), h)
      else if propName = ''getNumber'' then (JSObject (HostFunction funcName 1 Fn_getNumber), h)
      else if propName = ''getString'' then (JSObject (HostFunction funcName 1 Fn_getString), h)
      else if propName = ''getBuffer'' then (JSObject (HostFunction funcName 1 Fn_getBuffer), h)
      else if propName = ''contains'' then (JSObject (HostFunction funcName 1 Fn_contains), h)
      else if propName = ''delete'' then (JSObject (HostFunction funcName 1 Fn_delete), h)
      else if propName = ''getAllKeys'' then (JSObject (HostFunction funcName 0 Fn_getAllKeys), h)
      else if propName = ''clearAll'' then (JSObject (HostFunction funcName 0 Fn_clearAll), h)
      else if propName = ''recrypt'' then (JSObject (HostFunction funcName 1 Fn_recrypt), h)
      else if propName = ''trim'' then (JSObject (HostFunction funcName 0 Fn_trim), h)
      else if propName = ''size'' then
        (let sz = MMKV_actualSize (inst h)
         in (JSNumber (of_int (sint (ucast sz :: 32 word))), call_engine Call_actualSize h))
      else (JSUndefined, h))"

text \<open>
  A script's method call \<^verbatim>\<open>storage.name(...arguments)\<close> on the host object: the runtime
  asks \<open>get\<close> for the property and invokes the host function it got; calling a value
  that is not a function is the runtime's own error.
\<close>

definition call_method :: "string \<Rightarrow> jsvalue list \<Rightarrow> host \<Rightarrow> host_result" where
  "call_method name arguments h =
     (case get name h of
        (JSObject (HostFunction _ _ f), h') \<Rightarrow> call f arguments h'
      | (_, h') \<Rightarrow> (Inl NotCallable, h'))"

section \<open>Example states\<close>

definition example_engine :: mmkv where
  "example_engine =
     \<lparr>m_dic = [(''user'', VString ''ada''), (''dark'', VBool True)],
      m_cryptKey = [], m_actualSize = 4096\<rparr>"

definition example_host :: host where
  "example_host = \<lparr>inst = example_engine, calls = []\<rparr>"

text \<open>A host object whose engine reports a file of 2 GiB.\<close>

definition large_host :: host where
  "large_host =
     \<lparr>inst = \<lparr>m_dic = [], m_cryptKey = [], m_actualSize = 2147483648\<rparr>, calls = []\<rparr>"

text \<open>A factory that fails on every input, and configurations to try it on.\<close>

definition failing_mmkvWithID ::
  "string \<Rightarrow> MMKVMode \<Rightarrow> string option \<Rightarrow> string option \<Rightarrow> mmkv option" where
  "failing_mmkvWithID mmapID mode cryptKey rootPath = None"

definition example_config :: "string \<Rightarrow> string option \<Rightarrow> MMKVConfig" where
  "example_config i k =
     \<lparr>config_id = i, config_path = None, config_encryptionKey = k, config_mode = None\<rparr>"

section \<open>Method calls reach their lambdas\<close>

lemma call_method_set: "call_method ''set'' arguments h = host_set arguments h"
  by (simp add: call_method_def get_def)

lemma call_method_getBoolean:
  "call_method ''getBoolean'' arguments h = host_getBoolean arguments h"
  by (simp add: call_method_def get_def)

lemma call_method_getNumber:
  "call_method ''getNumber'' arguments h = host_getNumber arguments h"
  by (simp add: call_method_def get_def)

lemma call_method_getString:
  "call_method ''getString'' arguments h = host_getString arguments h"
  by (simp add: call_method_def get_def)

lemma call_method_getBuffer:
  "call_method ''getBuffer'' arguments h = host_getBuffer arguments h"
  by (simp add: call_method_def get_def)

lemma call_method_delete: "call_method ''delete'' arguments h = host_delete arguments h"
  by (simp add: call_method_def get_def)

lemma call_method_recrypt: "call_method ''recrypt'' arguments h = host_recrypt arguments h"
  by (simp add: call_method_def get_def)

lemma call_method_trim: "call_method ''trim'' arguments h = host_trim arguments h"
  by (simp add: call_method_def get_def)

section \<open>The exposed surface\<close>

text \<open>
  C1. The claim: the property \<^verbatim>\<open>deleteAll\<close> resolves to a function that clears all keys
  through the engine's \<^verbatim>\<open>clearAll\<close>. The code lists \<^verbatim>\<open>deleteAll\<close> among its property
  names, but \<open>get\<close> has no branch for it: the branch that calls \<^verbatim>\<open>clearAll\<close> answers to
  the name \<^verbatim>\<open>clearAll\<close>, which is not listed. So on every host object \<^verbatim>\<open>deleteAll\<close> is
  undefined, and calling it is an error of the runtime that reaches no engine
  operation.
\<close>

theorem deleteAll_is_undefined:
  "''deleteAll'' \<in> set getPropertyNames
   \<and> get ''deleteAll'' h = (JSUndefined, h)
   \<and> call_method ''deleteAll'' arguments h = (Inl NotCallable, h)
   \<and> ''clearAll'' \<notin> set getPropertyNames
   \<and> call_method ''clearAll'' arguments h = (Inr JSUndefined, call_engine Call_clearAll h)"
  by (simp add: getPropertyNames_def get_def call_method_def host_clearAll_def)

theorem deleteAll_is_undefined_witness:
  "get ''deleteAll'' example_host = (JSUndefined, example_host)
   \<and> call_method ''deleteAll'' [] example_host = (Inl NotCallable, example_host)"
  using deleteAll_is_undefined [of example_host "[]"] by simp

section \<open>recrypt\<close>

text \<open>
  C2, as stated: \<^verbatim>\<open>recrypt\<close> invoked with no argument is accepted. It is not: the lambda
  first checks \<^verbatim>\<open>count != 1\<close> and throws, naming the count it received.
\<close>

theorem recrypt_no_argument_raises:
  "fst (call_method ''recrypt'' [] example_host)
     = Inl (JSError ''Expected 1 argument (encryptionKey), but received 0!'')"
  by (simp add: call_method_recrypt host_recrypt_def digit_char_def)

text \<open>
  C2, amended: \<^verbatim>\<open>recrypt\<close> takes exactly one argument. It raises no exception and returns
  undefined exactly when it is invoked with one argument that is undefined or a string;
  with any other number of arguments (none included) or one argument of another type
  it throws.
\<close>

theorem recrypt_accepts_one_argument:
  "(fst (call_method ''recrypt'' arguments h) = Inr JSUndefined
      \<longleftrightarrow> (\<exists>v. arguments = [v] \<and> (isUndefined v \<or> isString v)))
   \<and> (isl (fst (call_method ''recrypt'' arguments h))
      \<longleftrightarrow> \<not> (\<exists>v. arguments = [v] \<and> (isUndefined v \<or> isString v)))"
proof (cases arguments)
  case Nil
  then show ?thesis
    by (simp add: call_method_recrypt host_recrypt_def)
next
  case (Cons v rest)
  then show ?thesis
    by (cases rest) (simp_all add: call_method_recrypt host_recrypt_def)
qed

theorem recrypt_accepts_one_argument_witness:
  "fst (call_method ''recrypt'' [JSUndefined] example_host) = Inr JSUndefined
   \<and> fst (call_method ''recrypt'' [JSString ''secret''] example_host) = Inr JSUndefined
   \<and> isl (fst (call_method ''recrypt'' [] example_host))
   \<and> isl (fst (call_method ''recrypt'' [JSNumber 1] example_host))
   \<and> isl (fst (call_method ''recrypt'' [JSUndefined, JSUndefined] example_host))"
  using recrypt_accepts_one_argument [of "[JSUndefined]" example_host]
    recrypt_accepts_one_argument [of "[JSString ''secret'']" example_host]
    recrypt_accepts_one_argument [of "[]" example_host]
    recrypt_accepts_one_argument [of "[JSNumber 1]" example_host]
    recrypt_accepts_one_argument [of "[JSUndefined, JSUndefined]" example_host]
  by simp

section \<open>set and getBoolean\<close>

text \<open>
  C3. For every string key \<open>k\<close> and boolean \<open>b\<close>: \<^verbatim>\<open>set(k, b)\<close> returns undefined, and
  \<^verbatim>\<open>getBoolean(k)\<close> called next on the same host object returns \<open>b\<close>. The binding hands
  the boolean to the engine's \<^verbatim>\<open>set\<close> for booleans and wraps what \<^verbatim>\<open>getBool\<close> gives back;
  that the engine gives back what was stored is the modelled engine's part.
\<close>

theorem set_then_getBoolean:
  "fst (call_method ''set'' [JSString k, JSBool b] h) = Inr JSUndefined
   \<and> fst (call_method ''getBoolean'' [JSString k]
            (snd (call_method ''set'' [JSString k, JSBool b] h))) = Inr (JSBool b)"
  by (simp add: call_method_set call_method_getBoolean host_set_def host_getBoolean_def
      call_engine_def MMKV_set_def MMKV_getBool_def update_conv')

theorem set_then_getBoolean_witness:
  "fst (call_method ''set'' [JSString ''dark'', JSBool False] example_host) = Inr JSUndefined
   \<and> fst (call_method ''getBoolean'' [JSString ''dark'']
          (snd (call_method ''set'' [JSString ''dark'', JSBool False] example_host)))
     = Inr (JSBool False)"
  using set_then_getBoolean [of "''dark''" False example_host] by simp

section \<open>Construction failures\<close>

text \<open>
  C4, as stated: when the factory returns the null pointer, the constructor throws the
  error saying that the encryption key cannot be longer than 16 bytes whenever the
  supplied key exceeds 16 bytes. The constructor tests the id first: with an empty id
  and a key of 17 bytes it throws the error saying that the id cannot be empty, and not
  the one about the key.
\<close>

theorem constructor_empty_id_hides_long_key:
  "config_id (example_config [] (Some ''0123456789abcdefg'')) = []
   \<and> length (encryptionKey_of (example_config [] (Some ''0123456789abcdefg''))) = 17
   \<and> MmkvHostObject failing_mmkvWithID (example_config [] (Some ''0123456789abcdefg''))
       = Inl (Runtime_error ''Failed to create MMKV instance! `id` cannot be empty!'')
   \<and> MmkvHostObject failing_mmkvWithID (example_config [] (Some ''0123456789abcdefg''))
       \<noteq> Inl (Runtime_error
           ''Failed to create MMKV instance! `encryptionKey` cannot be longer than 16 bytes!'')"
  by (simp add: MmkvHostObject_def getMMKVMode_def example_config_def failing_mmkvWithID_def
      encryptionKey_of_def)

text \<open>
  C4, amended: whenever the constructor reaches the engine's factory (the mode of the
  configuration is valid) and the factory returns the null pointer, the constructor
  throws a \<^verbatim>\<open>std::runtime_error\<close>: the one saying that the id cannot be empty when the
  configured id is empty; the one saying that the encryption key cannot be longer than
  16 bytes when the id is not empty and the key has more than 16 bytes; and the generic
  one otherwise.
\<close>

theorem constructor_throws_when_creation_fails:
  assumes "getMMKVMode config = Inr mode"
    and "mmkvWithID (config_id config) mode (encryptionKeyPtr config) (pathPtr config) = None"
  shows "MmkvHostObject mmkvWithID config =
     Inl (Runtime_error
       (if config_id config = [] then
          ''Failed to create MMKV instance! `id` cannot be empty!''
        else if length (encryptionKey_of config) > 16 then
          ''Failed to create MMKV instance! `encryptionKey` cannot be longer than 16 bytes!''
        else ''Failed to create MMKV instance!''))"
  using assms by (simp add: MmkvHostObject_def)

theorem constructor_throws_when_creation_fails_witness:
  "MmkvHostObject failing_mmkvWithID (example_config [] None)
     = Inl (Runtime_error ''Failed to create MMKV instance! `id` cannot be empty!'')
   \<and> MmkvHostObject failing_mmkvWithID (example_config ''store'' (Some ''0123456789abcdefg''))
     = Inl (Runtime_error
         ''Failed to create MMKV instance! `encryptionKey` cannot be longer than 16 bytes!'')
   \<and> MmkvHostObject failing_mmkvWithID (example_config ''store'' (Some ''0123456789abcdef''))
     = Inl (Runtime_error ''Failed to create MMKV instance!'')
   \<and> MmkvHostObject failing_mmkvWithID (example_config [] (Some ''0123456789abcdefg''))
     = Inl (Runtime_error ''Failed to create MMKV instance! `id` cannot be empty!'')"
  using
    constructor_throws_when_creation_fails
      [of "example_config [] (Some ''0123456789abcdefg'')" MMKV_SINGLE_PROCESS
          failing_mmkvWithID]
    constructor_throws_when_creation_fails
      [of "example_config [] None" MMKV_SINGLE_PROCESS failing_mmkvWithID]
    constructor_throws_when_creation_fails
      [of "example_config ''store'' (Some ''0123456789abcdefg'')" MMKV_SINGLE_PROCESS
          failing_mmkvWithID]
    constructor_throws_when_creation_fails
      [of "example_config ''store'' (Some ''0123456789abcdef'')" MMKV_SINGLE_PROCESS
          failing_mmkvWithID]
  by (simp add: getMMKVMode_def example_config_def failing_mmkvWithID_def encryptionKey_of_def)

section \<open>The arguments of set\<close>

lemma host_set_bad_shape:
  "length arguments \<noteq> 2 \<or> \<not> isString (arguments ! 0) \<Longrightarrow>
     host_set arguments h
       = (Inl (JSError ''MMKV::set: First argument ('key') has to be of type string!''), h)"
  by (simp add: host_set_def)

lemma host_set_good_shape:
  assumes "length arguments = 2" and "isString (arguments ! 0)"
  shows "isl (fst (host_set arguments h))
     \<longleftrightarrow> \<not> (isBool (arguments ! 1) \<or> isNumber (arguments ! 1) \<or> isString (arguments ! 1)
            \<or> (isObject (arguments ! 1) \<and> isArrayBuffer (asObject (arguments ! 1))))"
    and "\<not> isl (fst (host_set arguments h)) \<Longrightarrow> fst (host_set arguments h) = Inr JSUndefined"
  using assms by (auto simp add: host_set_def Let_def split: if_splits)

text \<open>
  C5. For every invocation of \<^verbatim>\<open>set\<close>: when the number of arguments is not 2 or the first
  argument is not a string, it throws; when there are two arguments, the first a
  string, and the second is not a bool, a number, a string or an ArrayBuffer object,
  it throws; in every other case it throws nothing and returns undefined.
\<close>

theorem set_argument_validation:
  "(length arguments \<noteq> 2 \<or> \<not> isString (arguments ! 0)
      \<longrightarrow> isl (fst (call_method ''set'' arguments h)))
   \<and> (length arguments = 2 \<and> isString (arguments ! 0)
        \<and> \<not> (isBool (arguments ! 1) \<or> isNumber (arguments ! 1) \<or> isString (arguments ! 1)
             \<or> (isObject (arguments ! 1) \<and> isArrayBuffer (asObject (arguments ! 1))))
      \<longrightarrow> isl (fst (call_method ''set'' arguments h)))
   \<and> (length arguments = 2 \<and> isString (arguments ! 0)
        \<and> (isBool (arguments ! 1) \<or> isNumber (arguments ! 1) \<or> isString (arguments ! 1)
             \<or> (isObject (arguments ! 1) \<and> isArrayBuffer (asObject (arguments ! 1))))
      \<longrightarrow> fst (call_method ''set'' arguments h) = Inr JSUndefined)"
proof (intro conjI impI)
  assume "length arguments \<noteq> 2 \<or> \<not> isString (arguments ! 0)"
  then show "isl (fst (call_method ''set'' arguments h))"
    by (simp add: call_method_set host_set_bad_shape)
next
  assume "length arguments = 2 \<and> isString (arguments ! 0)
        \<and> \<not> (isBool (arguments ! 1) \<or> isNumber (arguments ! 1) \<or> isString (arguments ! 1)
             \<or> (isObject (arguments ! 1) \<and> isArrayBuffer (asObject (arguments ! 1))))"
  then show "isl (fst (call_method ''set'' arguments h))"
    using host_set_good_shape(1) [of arguments h] by (simp add: call_method_set)
next
  assume a: "length arguments = 2 \<and> isString (arguments ! 0)
        \<and> (isBool (arguments ! 1) \<or> isNumber (arguments ! 1) \<or> isString (arguments ! 1)
             \<or> (isObject (arguments ! 1) \<and> isArrayBuffer (asObject (arguments ! 1))))"
  then have "\<not> isl (fst (host_set arguments h))"
    using host_set_good_shape(1) [of arguments h] by blast
  with a show "fst (call_method ''set'' arguments h) = Inr JSUndefined"
    using host_set_good_shape(2) [of arguments h] by (simp add: call_method_set)
qed

theorem set_argument_validation_witness:
  "isl (fst (call_method ''set'' [JSString ''k''] example_host))
   \<and> isl (fst (call_method ''set'' [JSNumber 1, JSBool True] example_host))
   \<and> isl (fst (call_method ''set'' [JSString ''k'', JSNull] example_host))
   \<and> isl (fst (call_method ''set'' [JSString ''k'', JSObject PlainObject] example_host))
   \<and> fst (call_method ''set'' [JSString ''k'', JSObject (ArrayBuffer [1, 2])] example_host)
       = Inr JSUndefined
   \<and> fst (call_method ''set'' [JSString ''k'', JSNumber 3] example_host) = Inr JSUndefined"
  using set_argument_validation [of "[JSString ''k'']" example_host]
    set_argument_validation [of "[JSNumber 1, JSBool True]" example_host]
    set_argument_validation [of "[JSString ''k'', JSNull]" example_host]
    set_argument_validation [of "[JSString ''k'', JSObject PlainObject]" example_host]
    set_argument_validation [of "[JSString ''k'', JSObject (ArrayBuffer [1, 2])]" example_host]
    set_argument_validation [of "[JSString ''k'', JSNumber 3]" example_host]
  by simp

section \<open>trim\<close>

text \<open>
  C6, as stated: \<^verbatim>\<open>trim()\<close> forwards to the engine's \<^verbatim>\<open>trim\<close> and performs no other
  state-affecting engine operation. The lambda calls \<^verbatim>\<open>instance->clearMemoryCache()\<close>
  first, which discards the engine's in-memory cache: on the example host, which has
  called nothing yet, the engine operations of \<^verbatim>\<open>trim()\<close> are two.
\<close>

theorem trim_clears_memory_cache_first:
  "calls (snd (call_method ''trim'' [] example_host)) = [Call_clearMemoryCache, Call_trim]
   \<and> calls (snd (call_method ''trim'' [] example_host)) \<noteq> calls example_host @ [Call_trim]"
  by (simp add: call_method_trim host_trim_def call_engine_def example_host_def)

text \<open>
  C6, amended: \<^verbatim>\<open>trim()\<close>, whatever its arguments, calls the engine's \<^verbatim>\<open>clearMemoryCache\<close>
  and then its \<^verbatim>\<open>trim\<close>, these two engine operations and no other, and returns
  undefined.
\<close>

theorem trim_forwards:
  "fst (call_method ''trim'' arguments h) = Inr JSUndefined
   \<and> calls (snd (call_method ''trim'' arguments h))
       = calls h @ [Call_clearMemoryCache, Call_trim]
   \<and> inst (snd (call_method ''trim'' arguments h))
       = MMKV_trim (MMKV_clearMemoryCache (inst h))"
  by (simp add: call_method_trim host_trim_def call_engine_def)

theorem trim_forwards_witness:
  "fst (call_method ''trim'' [] example_host) = Inr JSUndefined
   \<and> calls (snd (call_method ''trim'' [] example_host)) = [Call_clearMemoryCache, Call_trim]"
  using trim_forwards [of "[]" example_host] by (simp add: example_host_def)

section \<open>delete\<close>

text \<open>
  C7. For every string key \<open>k\<close>, \<^verbatim>\<open>delete(k)\<close> returns undefined; its one engine operation
  is \<^verbatim>\<open>removeValueForKey\<close> on \<open>k\<close>; and every key other than \<open>k\<close> holds afterwards what it
  held before.
\<close>

theorem delete_forwards_and_frames:
  "fst (call_method ''delete'' [JSString k] h) = Inr JSUndefined
   \<and> calls (snd (call_method ''delete'' [JSString k] h)) = calls h @ [Call_removeValueForKey k]
   \<and> inst (snd (call_method ''delete'' [JSString k] h)) = MMKV_removeValueForKey k (inst h)
   \<and> (\<forall>k'. k' \<noteq> k \<longrightarrow>
         map_of (m_dic (inst (snd (call_method ''delete'' [JSString k] h)))) k'
           = map_of (m_dic (inst h)) k')"
  by (simp add: call_method_delete host_delete_def call_engine_def MMKV_removeValueForKey_def
      delete_conv')

theorem delete_forwards_and_frames_witness:
  "fst (call_method ''delete'' [JSString ''user''] example_host) = Inr JSUndefined
   \<and> calls (snd (call_method ''delete'' [JSString ''user''] example_host))
       = [Call_removeValueForKey ''user'']
   \<and> map_of (m_dic (inst (snd (call_method ''delete'' [JSString ''user''] example_host)))) ''dark''
       = Some (VBool True)"
  using delete_forwards_and_frames [of "''user''" example_host]
  by (simp add: example_host_def example_engine_def call_method_delete host_delete_def
      call_engine_def MMKV_removeValueForKey_def)

section \<open>size\<close>

lemma sint_ucast_64_32: "sint (ucast (w :: 64 word) :: 32 word) = signed_take_bit 31 (uint w)"
proof -
  have "(ucast w :: 32 word) = word_of_int (uint w)"
    by simp
  then show ?thesis
    by (simp only: sint_sbintrunc') simp
qed

lemma uint_less_of_unat_less: "unat (w :: 64 word) < 2 ^ 31 \<Longrightarrow> uint w < 2 ^ 31"
  by transfer simp

lemma sint_ucast_small:
  assumes "unat (w :: 64 word) < 2 ^ 31"
  shows "sint (ucast w :: 32 word) = int (unat w)"
proof -
  have "- (2 ^ 31) \<le> (0::int)"
    by simp
  also have "0 \<le> uint w"
    by simp
  finally have lo: "- (2 ^ 31) \<le> uint w" .
  have hi: "uint w < 2 ^ 31"
    by (rule uint_less_of_unat_less [OF assms])
  have "signed_take_bit 31 (uint w) = uint w"
    by (rule signed_take_bit_int_eq_self [OF lo hi])
  then show ?thesis
    by (simp add: sint_ucast_64_32)
qed

text \<open>
  C8, as stated: for every engine state, \<^verbatim>\<open>size\<close> is the value of the engine's
  \<^verbatim>\<open>actualSize\<close>. The \<^verbatim>\<open>size_t\<close> is narrowed with \<^verbatim>\<open>static_cast<int>\<close> before it becomes a
  number: an engine that reports 2 GiB (\<open>2\<^sup>3\<^sup>1\<close> bytes) has the \<^verbatim>\<open>size\<close> \<open>- 2\<^sup>3\<^sup>1\<close>.
\<close>

theorem size_of_2GiB_is_negative:
  "MMKV_actualSize (inst large_host) = 2147483648
   \<and> fst (get ''size'' large_host) = JSNumber (- 2147483648)
   \<and> fst (get ''size'' large_host) \<noteq> JSNumber (real (unat (MMKV_actualSize (inst large_host))))"
  by (simp add: get_def large_host_def MMKV_actualSize_def)

text \<open>
  C8, amended: for every engine state, reading \<^verbatim>\<open>size\<close> calls the engine's \<^verbatim>\<open>actualSize\<close>
  (and nothing else) and returns, as a number, its value narrowed to a signed 32-bit
  integer; this is the value of \<^verbatim>\<open>actualSize\<close> itself whenever that is below \<open>2\<^sup>3\<^sup>1\<close>.
\<close>

theorem size_is_actualSize_as_int:
  "fst (get ''size'' h) = JSNumber (of_int (signed_take_bit 31 (uint (MMKV_actualSize (inst h)))))
   \<and> calls (snd (get ''size'' h)) = calls h @ [Call_actualSize]
   \<and> inst (snd (get ''size'' h)) = inst h
   \<and> (unat (MMKV_actualSize (inst h)) < 2 ^ 31 \<longrightarrow>
        fst (get ''size'' h) = JSNumber (real (unat (MMKV_actualSize (inst h)))))"
proof (intro conjI impI)
  show "fst (get ''size'' h)
      = JSNumber (of_int (signed_take_bit 31 (uint (MMKV_actualSize (inst h)))))"
    by (simp add: get_def sint_ucast_64_32)
  show "calls (snd (get ''size'' h)) = calls h @ [Call_actualSize]"
    by (simp add: get_def call_engine_def)
  show "inst (snd (get ''size'' h)) = inst h"
    by (simp add: get_def call_engine_def)
next
  assume "unat (MMKV_actualSize (inst h)) < 2 ^ 31"
  then have eq: "sint (ucast (MMKV_actualSize (inst h)) :: 32 word)
      = int (unat (MMKV_actualSize (inst h)))"
    by (rule sint_ucast_small)
  have "fst (get ''size'' h)
      = JSNumber (of_int (sint (ucast (MMKV_actualSize (inst h)) :: 32 word)))"
    by (simp add: get_def)
  also have "\<dots> = JSNumber (of_int (int (unat (MMKV_actualSize (inst h)))))"
    by (simp only: eq)
  also have "\<dots> = JSNumber (real (unat (MMKV_actualSize (inst h))))"
    by (simp only: of_int_of_nat_eq)
  finally show "fst (get ''size'' h) = JSNumber (real (unat (MMKV_actualSize (inst h))))" .
qed

theorem size_is_actualSize_as_int_witness:
  "unat (MMKV_actualSize (inst example_host)) < 2 ^ 31
   \<and> fst (get ''size'' example_host) = JSNumber 4096"
  using size_is_actualSize_as_int [of example_host]
  by (simp add: example_host_def example_engine_def MMKV_actualSize_def)

section \<open>Getters on a missing key\<close>

text \<open>
  C9. For every string key that holds no value in the store, each of \<^verbatim>\<open>getBoolean\<close>,
  \<^verbatim>\<open>getNumber\<close>, \<^verbatim>\<open>getString\<close> and \<^verbatim>\<open>getBuffer\<close> returns undefined: no default value and
  no exception.
\<close>

theorem getters_undefined_on_missing_key:
  assumes "\<not> MMKV_containsKey k (inst h)"
  shows "fst (call_method ''getBoolean'' [JSString k] h) = Inr JSUndefined
   \<and> fst (call_method ''getNumber'' [JSString k] h) = Inr JSUndefined
   \<and> fst (call_method ''getString'' [JSString k] h) = Inr JSUndefined
   \<and> fst (call_method ''getBuffer'' [JSString k] h) = Inr JSUndefined"
  using assms
  by (simp add: call_method_getBoolean call_method_getNumber call_method_getString
      call_method_getBuffer host_getBoolean_def host_getNumber_def host_getString_def
      host_getBuffer_def MMKV_containsKey_def MMKV_getBool_def MMKV_getDouble_def
      MMKV_getString_def MMKV_getBytes_def)

theorem getters_undefined_on_missing_key_witness:
  "\<not> MMKV_containsKey ''absent'' (inst example_host)
   \<and> fst (call_method ''getBoolean'' [JSString ''absent''] example_host) = Inr JSUndefined
   \<and> fst (call_method ''getNumber'' [JSString ''absent''] example_host) = Inr JSUndefined
   \<and> fst (call_method ''getString'' [JSString ''absent''] example_host) = Inr JSUndefined
   \<and> fst (call_method ''getBuffer'' [JSString ''absent''] example_host) = Inr JSUndefined"
proof -
  have a: "\<not> MMKV_containsKey ''absent'' (inst example_host)"
    by (simp add: MMKV_containsKey_def example_host_def example_engine_def)
  from a getters_undefined_on_missing_key [OF a] show ?thesis by simp
qed

section \<open>set is atomic on error\<close>

text \<open>
  C10. Whenever an invocation of \<^verbatim>\<open>set\<close> throws, the host object is afterwards as it was
  before: no engine operation was called and the engine's state is the same.
\<close>

theorem set_error_leaves_host_unchanged:
  "isl (fst (call_method ''set'' arguments h)) \<Longrightarrow> snd (call_method ''set'' arguments h) = h"
  by (auto simp add: call_method_set host_set_def Let_def split: if_splits)

theorem set_error_leaves_host_unchanged_witness:
  "isl (fst (call_method ''set'' [JSString ''user'', JSNull] example_host))
   \<and> snd (call_method ''set'' [JSString ''user'', JSNull] example_host) = example_host"
proof -
  have e: "isl (fst (call_method ''set'' [JSString ''user'', JSNull] example_host))"
    by (simp add: call_method_set host_set_def)
  from e set_error_leaves_host_unchanged [OF e] show ?thesis by simp
qed

end
